theory Spec2Isabelle
  imports Complex_Main "HOL-Library.Sublist" "HOL-Library.Multiset"
    "HOL-Library.Char_ord" "HOL-Library.List_Lexorder" "HOL-Library.Log_Nat"
begin

section \<open>Data model (src/lib/supabase.ts and the database schema)\<close>

text \<open>
  The three row types of \<^verbatim>\<open>supabase.ts\<close>. Field names are those of the source, with a
  prefix where two row types share a name. Amounts are JavaScript numbers: the
  binary64 values the JSON of the \<^verbatim>\<open>numeric\<close> columns is read as, each given by the
  rational it denotes (see the section on numbers below). Dates, months and
  timestamps are the strings the source handles.
\<close>

datatype kind = Income | Expense

record category =
  cat_id :: string
  cat_name :: string
  cat_type :: kind
  cat_icon :: string
  cat_is_custom :: bool
  cat_color :: string
  cat_created_at :: string

record transaction =
  txn_id :: string
  txn_type :: kind
  amount :: rat
  txn_category_id :: string
  description :: "string option"
  date :: string
  txn_created_at :: string
  is_recurring :: bool
  recurring_frequency :: "string option"
  recurring_end_date :: "string option"
  categories :: "category option"

record budget =
  budget_id :: string
  category_id :: string
  limit_amount :: rat
  month :: string
  created_at :: string
  updated_at :: string

text \<open>\<^verbatim>\<open>interface BudgetWithSpending extends Budget\<close> of BudgetManager.tsx.\<close>

record budgetWithSpending = budget +
  spent :: rat
  categoryName :: string
  categoryColor :: string
  categoryIcon :: string

section \<open>JavaScript numbers\<close>

text \<open>
  A JavaScript number is an IEEE 754 binary64 value. A finite one is modelled by
  the rational it denotes, and every arithmetic operation of the source by the
  exact operation followed by \<open>round64\<close>, the rounding to the nearest binary64
  value with ties to the even significand (53 significant bits, exponent of the
  last place at least \<open>-1074\<close>, so subnormal values are covered). \<open>ilog2 x\<close> is the
  floor of the binary logarithm of a positive \<open>x\<close>. Overflow to Infinity (beyond
  about 1.8e308), NaN and the sign of zero are outside the model; a division by
  zero is excluded by the hypotheses below. Comparisons of finite numbers are
  exact, and the constants 0, 80 and 100 of the source are binary64 values.
\<close>

definition ilog2 :: "rat \<Rightarrow> int" where
  "ilog2 x =
     (case quotient_of x of
        (p, q) \<Rightarrow> (let k = bitlen p - bitlen q in if 2 powi k \<le> x then k else k - 1))"

definition round_half_even :: "rat \<Rightarrow> int" where
  "round_half_even r =
     (let f = \<lfloor>r\<rfloor>; d = r - of_int f
      in if d < 1 / 2 then f else if 1 / 2 < d then f + 1 else if even f then f else f + 1)"

definition round64 :: "rat \<Rightarrow> rat" where
  "round64 x =
     (if x = 0 then 0
      else (let e = max (ilog2 \<bar>x\<bar> - 52) (- 1074)
            in sgn x * of_int (round_half_even (\<bar>x\<bar> / 2 powi e)) * 2 powi e))"

definition js_add :: "rat \<Rightarrow> rat \<Rightarrow> rat" where
  "js_add x y = round64 (x + y)"

definition js_sub :: "rat \<Rightarrow> rat \<Rightarrow> rat" where
  "js_sub x y = round64 (x - y)"

definition js_mul :: "rat \<Rightarrow> rat \<Rightarrow> rat" where
  "js_mul x y = round64 (x * y)"

definition js_div :: "rat \<Rightarrow> rat \<Rightarrow> rat" where
  "js_div x y = round64 (x / y)"

text \<open>The number a decimal literal or a JSON number denotes: the nearest binary64 value.\<close>

definition literal :: "rat \<Rightarrow> rat" where
  "literal x = round64 x"

section \<open>JavaScript strings and dates used by the source\<close>

text \<open>
  \<^verbatim>\<open>String.prototype.split\<close> with a one-character separator: the pieces between the
  separators, so the result is never empty and \<^verbatim>\<open>"".split("-")\<close> is \<^verbatim>\<open>[""]\<close>.
  \<^verbatim>\<open>startsWith\<close> is \<^const>\<open>prefix\<close>.
\<close>

fun split_str :: "char \<Rightarrow> string \<Rightarrow> string list" where
  "split_str sep [] = [[]]"
| "split_str sep (c # cs) =
     (if c = sep then [] # split_str sep cs
      else (case split_str sep cs of
              [] \<Rightarrow> [[c]]
            | w # ws \<Rightarrow> (c # w) # ws))"

definition digit_val :: "char \<Rightarrow> nat option" where
  "digit_val c =
     (let n = (of_char c :: nat) in if 48 \<le> n \<and> n \<le> 57 then Some (n - 48) else None)"

definition number :: "string \<Rightarrow> nat option" where
  "number s =
     (if s = [] then None
      else foldl (\<lambda>acc c. case acc of
                             None \<Rightarrow> None
                           | Some a \<Rightarrow> (case digit_val c of
                                         None \<Rightarrow> None
                                       | Some d \<Rightarrow> Some (10 * a + d)))
             (Some 0) s)"

fun pad :: "nat \<Rightarrow> nat \<Rightarrow> string" where
  "pad 0 k = []"
| "pad (Suc n) k = pad n (k div 10) @ [''0123456789'' ! (k mod 10)]"

text \<open>
  The time values of ECMAScript (milliseconds since 1970-01-01T00:00Z) and its
  abstract operations \<^verbatim>\<open>Day\<close>, \<^verbatim>\<open>TimeWithinDay\<close>, \<^verbatim>\<open>WeekDay\<close>, \<^verbatim>\<open>YearFromTime\<close>,
  \<^verbatim>\<open>MonthFromTime\<close> (0 to 11), \<^verbatim>\<open>DateFromTime\<close>, \<^verbatim>\<open>MakeDay\<close>, \<^verbatim>\<open>MakeDate\<close>,
  \<^verbatim>\<open>LocalTime\<close> and \<^verbatim>\<open>UTC\<close>. \<open>first_of_month y mn\<close> is the day number of the first day
  of month \<open>mn\<close> (0 to 11) of year \<open>y\<close> in the proleptic Gregorian calendar, and
  \<open>civil\<close> is its inverse on day numbers. The local time zone is a parameter \<open>tz\<close>:
  the minutes local time is ahead of UTC (what \<^verbatim>\<open>-new Date().getTimezoneOffset()\<close>
  returns), constant over the dates involved (no daylight-saving change). The
  range limit of time values (\<^verbatim>\<open>TimeClip\<close>) is left out.
\<close>

definition msPerDay :: int where
  "msPerDay = 86400000"

definition Day :: "int \<Rightarrow> int" where
  "Day t = t div msPerDay"

definition TimeWithinDay :: "int \<Rightarrow> int" where
  "TimeWithinDay t = t mod msPerDay"

definition WeekDay :: "int \<Rightarrow> int" where
  "WeekDay t = (Day t + 4) mod 7"

definition first_of_month :: "int \<Rightarrow> int \<Rightarrow> int" where
  "first_of_month y mn =
     (let y' = (if mn < 2 then y - 1 else y);
          era = y' div 400;
          yoe = y' mod 400;
          mp = (if mn < 2 then mn + 10 else mn - 2);
          doy = (153 * mp + 2) div 5;
          doe = yoe * 365 + yoe div 4 - yoe div 100 + doy
      in era * 146097 + doe - 719468)"

definition civil :: "int \<Rightarrow> int \<times> int \<times> int" where
  "civil z =
     (let z' = z + 719468;
          era = z' div 146097;
          doe = z' mod 146097;
          yoe = (doe - doe div 1460 + doe div 36524 - doe div 146096) div 365;
          doy = doe - (365 * yoe + yoe div 4 - yoe div 100);
          mp = (5 * doy + 2) div 153;
          d = doy - (153 * mp + 2) div 5 + 1;
          mn = (if mp < 10 then mp + 2 else mp - 10);
          y = yoe + era * 400
      in (if mn < 2 then y + 1 else y, mn, d))"

definition YearFromTime :: "int \<Rightarrow> int" where
  "YearFromTime t = fst (civil (Day t))"

definition MonthFromTime :: "int \<Rightarrow> int" where
  "MonthFromTime t = fst (snd (civil (Day t)))"

definition DateFromTime :: "int \<Rightarrow> int" where
  "DateFromTime t = snd (snd (civil (Day t)))"

definition MakeDay :: "int \<Rightarrow> int \<Rightarrow> int \<Rightarrow> int" where
  "MakeDay year mon dt = first_of_month (year + mon div 12) (mon mod 12) + dt - 1"

definition MakeDate :: "int \<Rightarrow> int \<Rightarrow> int" where
  "MakeDate dy time = dy * msPerDay + time"

definition LocalTime :: "int \<Rightarrow> int \<Rightarrow> int" where
  "LocalTime tz t = t + tz * 60000"

definition UTC :: "int \<Rightarrow> int \<Rightarrow> int" where
  "UTC tz t = t - tz * 60000"

text \<open>
  \<^verbatim>\<open>new Date(string)\<close> on the date-only ISO forms \<^verbatim>\<open>YYYY\<close>, \<^verbatim>\<open>YYYY-MM\<close> and
  \<^verbatim>\<open>YYYY-MM-DD\<close>, which ECMAScript reads as midnight UTC; \<open>None\<close> is the Invalid
  Date (time value NaN). Days up to 31 are accepted in every month and roll over
  through \<^verbatim>\<open>MakeDay\<close>, as V8 does. Every other string is outside the model and is
  treated as an Invalid Date.
\<close>

definition ymd :: "string \<Rightarrow> string \<Rightarrow> string \<Rightarrow> int option" where
  "ymd y m d =
     (case number y of
        None \<Rightarrow> None
      | Some yy \<Rightarrow>
          (case number m of
             None \<Rightarrow> None
           | Some mm \<Rightarrow>
               (case number d of
                  None \<Rightarrow> None
                | Some dd \<Rightarrow>
                    if length y = 4 \<and> length m = 2 \<and> length d = 2
                       \<and> 1 \<le> mm \<and> mm \<le> 12 \<and> 1 \<le> dd \<and> dd \<le> 31
                    then Some (MakeDate (MakeDay (int yy) (int mm - 1) (int dd)) 0)
                    else None)))"

definition Date_parse :: "string \<Rightarrow> int option" where
  "Date_parse s =
     (case split_str CHR ''-'' s of
        [y] \<Rightarrow> ymd y ''01'' ''01''
      | [y, m] \<Rightarrow> ymd y m ''01''
      | [y, m, d] \<Rightarrow> ymd y m d
      | _ \<Rightarrow> None)"

text \<open>The accessors and setters of \<^verbatim>\<open>Date.prototype\<close> the source calls, on a valid time value.\<close>

definition getDay :: "int \<Rightarrow> int \<Rightarrow> int" where
  "getDay tz t = WeekDay (LocalTime tz t)"

definition getDate :: "int \<Rightarrow> int \<Rightarrow> int" where
  "getDate tz t = DateFromTime (LocalTime tz t)"

definition getMonth :: "int \<Rightarrow> int \<Rightarrow> int" where
  "getMonth tz t = MonthFromTime (LocalTime tz t)"

definition setDate :: "int \<Rightarrow> int \<Rightarrow> int \<Rightarrow> int" where
  "setDate tz t dt =
     (let lt = LocalTime tz t
      in UTC tz (MakeDate (MakeDay (YearFromTime lt) (MonthFromTime lt) dt) (TimeWithinDay lt)))"

definition setMonth :: "int \<Rightarrow> int \<Rightarrow> int \<Rightarrow> int" where
  "setMonth tz t mo =
     (let lt = LocalTime tz t
      in UTC tz (MakeDate (MakeDay (YearFromTime lt) mo (DateFromTime lt)) (TimeWithinDay lt)))"

text \<open>\<^verbatim>\<open>date.toISOString().split('T')[0]\<close>: the UTC calendar date of a time value.\<close>

definition toISODate :: "int \<Rightarrow> string" where
  "toISODate t =
     (case civil (Day t) of
        (y, mn, d) \<Rightarrow>
          (if 0 \<le> y \<and> y \<le> 9999 then pad 4 (nat y)
           else (if y < 0 then ''-'' else ''+'') @ pad 6 (nat \<bar>y\<bar>))
          @ ''-'' @ pad 2 (nat (mn + 1)) @ ''-'' @ pad 2 (nat d))"

section \<open>The record store as the client sees it\<close>

text \<open>
  The Supabase tables of the schema, and which requests currently fail in
  transport (the \<^verbatim>\<open>error\<close> member of a response). A \<^verbatim>\<open>date\<close> column is compared as its
  ISO text \<^verbatim>\<open>YYYY-MM-DD\<close>, on which the order of dates is the lexicographic order
  of strings. \<open>StoreError\<close> is a thrown Supabase error, \<open>RangeError\<close> the exception of
  \<^verbatim>\<open>toISOString\<close> on an Invalid Date.
\<close>

datatype error = StoreError | RangeError

datatype request =
    SelectBudgets string
  | SelectBudgetId string string
  | UpdateBudget string
  | InsertBudget string string
  | SelectSpending string string

record store =
  tbl_categories :: "category list"
  tbl_transactions :: "transaction list"
  tbl_budgets :: "budget list"
  fails :: "request \<Rightarrow> bool"



section \<open>src/lib/utils.ts\<close>

definition getBudgets :: "store \<Rightarrow> string \<Rightarrow> error + budget list" where
  "getBudgets db mon =
     (if fails db (SelectBudgets mon) then Inl StoreError
      else Inr (filter (\<lambda>b. budget.month b = mon) (tbl_budgets db)))"








text \<open>
  \<^verbatim>\<open>getCategorySpending\<close>: \<^verbatim>\<open>new Date(month)\<close> is read three times and is the same
  value each time. On an Invalid Date \<^verbatim>\<open>toISOString\<close> throws.
\<close>

definition getCategorySpending :: "store \<Rightarrow> int \<Rightarrow> string \<Rightarrow> string \<Rightarrow> error + rat" where
  "getCategorySpending db tz categoryId mon =
     (case Date_parse mon of
        None \<Rightarrow> Inl RangeError
      | Some d \<Rightarrow>
          (let startDate = mon;
               endDate = setMonth tz d (getMonth tz d + 1);
               endDateStr = toISODate endDate
           in if fails db (SelectSpending categoryId mon) then Inl StoreError
              else Inr (foldl (\<lambda>sum t. js_add sum (amount t)) 0
                          (filter (\<lambda>t. txn_category_id t = categoryId \<and> txn_type t = Expense
                                        \<and> startDate \<le> date t \<and> date t < endDateStr)
                             (tbl_transactions db)))))"


section \<open>The dashboard component (Dashboard.tsx)\<close>

datatype timeView = DayView | WeekView | MonthView

record stats =
  income :: rat
  expenses :: rat
  net :: rat

record alert =
  alert_categoryName :: string
  alert_spent :: rat
  alert_limit :: rat
  alert_percentage :: rat

record dashboard =
  budgetAlerts :: "alert list"
  monthlyStats :: stats

text \<open>
  The template \<^verbatim>\<open>`${year}-${month}`\<close> after \<^verbatim>\<open>const [year, month] = selectedMonth.split('-')\<close>;
  a missing piece is \<^verbatim>\<open>undefined\<close> and prints as that word.
\<close>

definition month_prefix :: "string \<Rightarrow> string" where
  "month_prefix selectedMonth =
     (case split_str CHR ''-'' selectedMonth of
        [] \<Rightarrow> ''undefined-undefined''
      | [year] \<Rightarrow> year @ ''-undefined''
      | year # mo # _ \<Rightarrow> year @ ''-'' @ mo)"

text \<open>
  \<^verbatim>\<open>startOfWeek\<close> and \<^verbatim>\<open>endOfWeek\<close> of the week branch. With an Invalid Date every
  accessor is NaN and both bounds are Invalid Dates (\<open>None\<close>).
\<close>

definition week_bounds :: "int \<Rightarrow> string \<Rightarrow> (int \<times> int) option" where
  "week_bounds tz selectedMonth =
     (case Date_parse selectedMonth of
        None \<Rightarrow> None
      | Some d \<Rightarrow>
          (let startOfWeek = setDate tz d (getDate tz d - getDay tz d);
               endOfWeek = setDate tz startOfWeek (getDate tz startOfWeek + 6)
           in Some (startOfWeek, endOfWeek)))"

text \<open>
  The period test of lines 37 to 55, shared by \<^verbatim>\<open>calculateStats\<close> and
  \<^verbatim>\<open>getExpensesByCategory\<close>. A comparison with an Invalid Date is false.
\<close>

definition in_period :: "int \<Rightarrow> string \<Rightarrow> timeView \<Rightarrow> transaction \<Rightarrow> bool" where
  "in_period tz selectedMonth tv t =
     (case tv of
        DayView \<Rightarrow> date t = selectedMonth
      | WeekView \<Rightarrow>
          (case week_bounds tz selectedMonth of
             None \<Rightarrow> False
           | Some (startOfWeek, endOfWeek) \<Rightarrow>
               (case Date_parse (date t) of
                  None \<Rightarrow> False
                | Some tDate \<Rightarrow> startOfWeek \<le> tDate \<and> tDate \<le> endOfWeek))
      | MonthView \<Rightarrow> prefix (month_prefix selectedMonth) (date t))"

definition filtered :: "int \<Rightarrow> transaction list \<Rightarrow> string \<Rightarrow> timeView \<Rightarrow> transaction list" where
  "filtered tz transactions selectedMonth tv = filter (in_period tz selectedMonth tv) transactions"

text \<open>Lines 57 to 69: the two \<^verbatim>\<open>filter(...).reduce(...)\<close> chains and the totals.\<close>

definition aggregate :: "transaction list \<Rightarrow> stats" where
  "aggregate ts =
     (let incomeSum =
            foldl (\<lambda>sum t. js_add sum (amount t)) 0 (filter (\<lambda>t. txn_type t = Income) ts);
          expenseSum =
            foldl (\<lambda>sum t. js_add sum (amount t)) 0 (filter (\<lambda>t. txn_type t = Expense) ts)
      in \<lparr>income = incomeSum, expenses = expenseSum, net = js_sub incomeSum expenseSum\<rparr>)"

definition category_name :: "category list \<Rightarrow> string \<Rightarrow> string" where
  "category_name cats cid =
     (case find (\<lambda>c. cat_id c = cid) cats of
        None \<Rightarrow> ''Unknown''
      | Some c \<Rightarrow> if cat_name c = [] then ''Unknown'' else cat_name c)"

text \<open>The object pushed onto \<^verbatim>\<open>alerts\<close> for a budget with the spend \<open>sp\<close>.\<close>

definition budget_alert :: "category list \<Rightarrow> budget \<Rightarrow> rat \<Rightarrow> alert" where
  "budget_alert cats b sp =
     \<lparr>alert_categoryName = category_name cats (category_id b),
      alert_spent = sp, alert_limit = limit_amount b,
      alert_percentage = js_mul (js_div sp (limit_amount b)) 100\<rparr>"

text \<open>The \<^verbatim>\<open>for ... of\<close> loop of \<^verbatim>\<open>checkBudgetAlerts\<close>; a rejected fetch leaves the loop.\<close>

fun alerts_loop ::
  "store \<Rightarrow> int \<Rightarrow> category list \<Rightarrow> string \<Rightarrow> budget list \<Rightarrow> alert list \<Rightarrow> error + alert list" where
  "alerts_loop db tz cats selectedMonth [] alerts = Inr alerts"
| "alerts_loop db tz cats selectedMonth (b # bs) alerts =
     (case getCategorySpending db tz (category_id b) selectedMonth of
        Inl err \<Rightarrow> Inl err
      | Inr sp \<Rightarrow>
          (let pct = js_mul (js_div sp (limit_amount b)) 100
           in if pct \<ge> 80
              then alerts_loop db tz cats selectedMonth bs (alerts @ [budget_alert cats b sp])
              else alerts_loop db tz cats selectedMonth bs alerts))"

text \<open>\<^verbatim>\<open>checkBudgetAlerts\<close>: the \<^verbatim>\<open>catch\<close> only logs, so a failure keeps the old alerts.\<close>

definition checkBudgetAlerts ::
  "store \<Rightarrow> int \<Rightarrow> category list \<Rightarrow> string \<Rightarrow> dashboard \<Rightarrow> dashboard" where
  "checkBudgetAlerts db tz cats selectedMonth st =
     (case getBudgets db selectedMonth of
        Inl err \<Rightarrow> st
      | Inr bs \<Rightarrow>
          (case alerts_loop db tz cats selectedMonth bs [] of
             Inl err \<Rightarrow> st
           | Inr alerts \<Rightarrow> st\<lparr>budgetAlerts := alerts\<rparr>))"

definition calculateStats ::
  "store \<Rightarrow> int \<Rightarrow> transaction list \<Rightarrow> category list \<Rightarrow> string \<Rightarrow> timeView \<Rightarrow> dashboard \<Rightarrow> dashboard" where
  "calculateStats db tz transactions cats selectedMonth tv st =
     (let st1 = st\<lparr>monthlyStats := aggregate (filtered tz transactions selectedMonth tv)\<rparr>
      in if tv = MonthView then checkBudgetAlerts db tz cats selectedMonth st1 else st1)"

subsection \<open>Expenses by category\<close>

text \<open>
  The accumulator of the \<^verbatim>\<open>reduce\<close> is the object literal \<^verbatim>\<open>{}\<close>: its own properties,
  in insertion order, are an association list. A read \<^verbatim>\<open>acc[categoryName]\<close> of a
  name that is not an own property goes to \<^verbatim>\<open>Object.prototype\<close>, whose members are
  functions (or, for \<^verbatim>\<open>__proto__\<close>, the prototype object) and therefore truthy.
\<close>

record bucket =
  bucket_amount :: rat
  bucket_color :: string
  bucket_icon :: string

record expense =
  expense_name :: string
  expense_amount :: rat
  expense_color :: string
  expense_icon :: string

definition objectPrototypeKeys :: "string list" where
  "objectPrototypeKeys =
     [''constructor'', ''__proto__'', ''hasOwnProperty'', ''isPrototypeOf'',
      ''propertyIsEnumerable'', ''toLocaleString'', ''toString'', ''valueOf'',
      ''__defineGetter__'', ''__defineSetter__'', ''__lookupGetter__'', ''__lookupSetter__'']"

datatype 'a property = Undefined | Inherited | Own 'a

definition js_get :: "(string \<times> 'a) list \<Rightarrow> string \<Rightarrow> 'a property" where
  "js_get acc k =
     (case map_of acc k of
        Some v \<Rightarrow> Own v
      | None \<Rightarrow> if k \<in> set objectPrototypeKeys then Inherited else Undefined)"

text \<open>\<^verbatim>\<open>trans.categories?.name || 'Other'\<close> and the two other fallbacks of the callback.\<close>

definition or_else :: "string option \<Rightarrow> string \<Rightarrow> string" where
  "or_else v dflt = (case v of None \<Rightarrow> dflt | Some s \<Rightarrow> if s = [] then dflt else s)"

text \<open>
  The callback of the \<^verbatim>\<open>reduce\<close>. The initialisation runs when \<^verbatim>\<open>acc[categoryName]\<close>
  is falsy, that is undefined. The update \<^verbatim>\<open>acc[categoryName].amount += ...\<close> then
  writes to the own bucket when there is one; otherwise it writes to the inherited
  member of \<^verbatim>\<open>Object.prototype\<close> and the accumulator's own properties stay as they are.
\<close>

definition group_name :: "transaction \<Rightarrow> string" where
  "group_name tr = or_else (map_option cat_name (categories tr)) ''Other''"

definition group_step :: "(string \<times> bucket) list \<Rightarrow> transaction \<Rightarrow> (string \<times> bucket) list" where
  "group_step acc tr =
     (let categoryName = group_name tr;
          acc1 = (case js_get acc categoryName of
                    Undefined \<Rightarrow>
                      acc @ [(categoryName,
                              \<lparr>bucket_amount = 0,
                               bucket_color = or_else (map_option cat_color (categories tr)) ''#6B7280'',
                               bucket_icon = or_else (map_option cat_icon (categories tr)) ''Package''\<rparr>)]
                  | _ \<Rightarrow> acc)
      in map (\<lambda>(k, v). if k = categoryName
                         then (k, v\<lparr>bucket_amount := js_add (bucket_amount v) (amount tr)\<rparr>)
                         else (k, v)) acc1)"

definition grouped :: "transaction list \<Rightarrow> (string \<times> bucket) list" where
  "grouped ts = foldl group_step [] ts"

text \<open>
  \<^verbatim>\<open>Object.entries\<close>: the own properties whose names are array indices (canonical
  decimal numerals below \<open>2^32 - 1\<close>) in ascending numeric order, then the others
  in insertion order.
\<close>

definition array_index :: "string \<Rightarrow> nat option" where
  "array_index k =
     (case number k of
        None \<Rightarrow> None
      | Some n \<Rightarrow> if (k = ''0'' \<or> hd k \<noteq> CHR ''0'') \<and> n < 4294967295 then Some n else None)"

definition entries :: "(string \<times> 'a) list \<Rightarrow> (string \<times> 'a) list" where
  "entries obj =
     sort_key (\<lambda>(k, v). case array_index k of Some n \<Rightarrow> n | None \<Rightarrow> 0)
       (filter (\<lambda>(k, v). array_index k \<noteq> None) obj)
     @ filter (\<lambda>(k, v). array_index k = None) obj"

definition groupExpensesByCategory :: "transaction list \<Rightarrow> expense list" where
  "groupExpensesByCategory ts =
     map (\<lambda>(name, data). \<lparr>expense_name = name, expense_amount = bucket_amount data,
                            expense_color = bucket_color data, expense_icon = bucket_icon data\<rparr>)
       (entries (grouped ts))"

definition getExpensesByCategory ::
  "int \<Rightarrow> transaction list \<Rightarrow> string \<Rightarrow> timeView \<Rightarrow> expense list" where
  "getExpensesByCategory tz transactions selectedMonth tv =
     groupExpensesByCategory
       (filter (\<lambda>t. in_period tz selectedMonth tv t \<and> txn_type t = Expense) transactions)"

definition totalExpense :: "expense list \<Rightarrow> rat" where
  "totalExpense es = foldl (\<lambda>sum e. js_add sum (expense_amount e)) 0 es"

section \<open>The budget manager component (BudgetManager.tsx)\<close>

record manager =
  budgets :: "budgetWithSpending list"
  isLoading :: bool
  error :: string

text \<open>
  \<^verbatim>\<open>Promise.all\<close> over the mapped promises: the list of all results, or a
  rejection when one of them rejects (which one is reported does not matter here,
  the \<^verbatim>\<open>catch\<close> ignores it).
\<close>

fun promise_all :: "(error + 'a) list \<Rightarrow> error + 'a list" where
  "promise_all [] = Inr []"
| "promise_all (p # ps) =
     (case p of
        Inl err \<Rightarrow> Inl err
      | Inr v \<Rightarrow> (case promise_all ps of Inl err \<Rightarrow> Inl err | Inr vs \<Rightarrow> Inr (v # vs)))"

definition with_spending ::
  "store \<Rightarrow> int \<Rightarrow> category list \<Rightarrow> string \<Rightarrow> budget \<Rightarrow> error + budgetWithSpending" where
  "with_spending db tz cats selectedMonth b =
     (case getCategorySpending db tz (category_id b) selectedMonth of
        Inl err \<Rightarrow> Inl err
      | Inr sp \<Rightarrow>
          (let cat = find (\<lambda>c. cat_id c = category_id b) cats
           in Inr \<lparr>budget_id = budget_id b, category_id = category_id b,
                    limit_amount = limit_amount b, month = budget.month b,
                    created_at = created_at b, updated_at = updated_at b,
                    spent = sp,
                    categoryName = or_else (map_option cat_name cat) ''Unknown'',
                    categoryColor = or_else (map_option cat_color cat) ''#6B7280'',
                    categoryIcon = or_else (map_option cat_icon cat) ''Package''\<rparr>))"

definition loadBudgets ::
  "store \<Rightarrow> int \<Rightarrow> category list \<Rightarrow> string \<Rightarrow> manager \<Rightarrow> manager" where
  "loadBudgets db tz cats selectedMonth st =
     (let st1 = st\<lparr>isLoading := True\<rparr>
      in (case getBudgets db selectedMonth of
            Inl err \<Rightarrow> st1\<lparr>error := ''Failed to load budgets'', isLoading := False\<rparr>
          | Inr data \<Rightarrow>
              (case promise_all (map (with_spending db tz cats selectedMonth) data) of
                 Inl err \<Rightarrow> st1\<lparr>error := ''Failed to load budgets'', isLoading := False\<rparr>
               | Inr budgetsWithSpending \<Rightarrow>
                   st1\<lparr>budgets := budgetsWithSpending, isLoading := False\<rparr>)))"

subsection \<open>Budget classification (the body of \<^verbatim>\<open>budgets.map\<close>)\<close>

text \<open>
  Lines 190 to 192 compute \<^verbatim>\<open>percentage\<close>, \<^verbatim>\<open>isOverBudget\<close> and \<^verbatim>\<open>isWarning\<close>; the
  nested conditional \<^verbatim>\<open>isOverBudget ? red : isWarning ? amber : neutral\<close> that
  styles the card, the bar and the caption is \<open>budget_class\<close>; line 252 appends
  the over-amount \<^verbatim>\<open>budget.spent - budget.limit_amount\<close> only when \<^verbatim>\<open>isOverBudget\<close>
  holds (\<open>over_by\<close>; the two-decimal formatting of the caption is left out).
\<close>

datatype budget_class = Normal | Warning | OverBudget

definition percentage :: "budgetWithSpending \<Rightarrow> rat" where
  "percentage b = js_mul (js_div (spent b) (limit_amount b)) 100"

definition isOverBudget :: "budgetWithSpending \<Rightarrow> bool" where
  "isOverBudget b = (percentage b > 100)"

definition isWarning :: "budgetWithSpending \<Rightarrow> bool" where
  "isWarning b = (percentage b \<ge> 80)"

definition budget_class :: "budgetWithSpending \<Rightarrow> budget_class" where
  "budget_class b =
     (if isOverBudget b then OverBudget else if isWarning b then Warning else Normal)"

definition over_by :: "budgetWithSpending \<Rightarrow> rat option" where
  "over_by b = (if isOverBudget b then Some (js_sub (spent b) (limit_amount b)) else None)"

text \<open>A card with the given limit and spend, for concrete evaluations.\<close>

definition budget_card :: "rat \<Rightarrow> rat \<Rightarrow> budgetWithSpending" where
  "budget_card l s =
     \<lparr>budget_id = ''b1'', category_id = ''c1'', limit_amount = l, month = ''2024-06-01'',
      created_at = '''', updated_at = '''',
      spent = s, categoryName = ''Food'', categoryColor = ''#F87171'',
      categoryIcon = ''Utensils''\<rparr>"

section \<open>Concrete inputs\<close>

text \<open>Rows and tables for the evaluations below.\<close>

definition txn :: "string \<Rightarrow> kind \<Rightarrow> rat \<Rightarrow> string \<Rightarrow> string \<Rightarrow> transaction" where
  "txn i k a c d =
     \<lparr>txn_id = i, txn_type = k, amount = a, txn_category_id = c, description = None,
      date = d, txn_created_at = ''2024-06-01T00:00:00Z'', is_recurring = False,
      recurring_frequency = None, recurring_end_date = None, categories = None\<rparr>"

definition cat :: "string \<Rightarrow> string \<Rightarrow> kind \<Rightarrow> category" where
  "cat i n k =
     \<lparr>cat_id = i, cat_name = n, cat_type = k, cat_icon = ''Tag'', cat_is_custom = True,
      cat_color = ''#3B82F6'', cat_created_at = ''2024-01-01T00:00:00Z''\<rparr>"

definition bud :: "string \<Rightarrow> string \<Rightarrow> rat \<Rightarrow> string \<Rightarrow> budget" where
  "bud i c l m =
     \<lparr>budget_id = i, category_id = c, limit_amount = l, month = m,
      created_at = ''2024-06-01T00:00:00Z'', updated_at = ''2024-06-01T00:00:00Z''\<rparr>"

definition sample_cats :: "category list" where
  "sample_cats = [cat ''c1'' ''Food'' Expense, cat ''c2'' ''Transport'' Expense,
                  cat ''c3'' ''Salary'' Income]"

definition sample_txns :: "transaction list" where
  "sample_txns =
     [txn ''t1'' Expense 50 ''c1'' ''2024-06-01'',
      txn ''t2'' Income 1000 ''c3'' ''2024-06-02'',
      txn ''t3'' Expense 35 ''c1'' ''2024-06-30'',
      txn ''t4'' Expense 40 ''c2'' ''2024-06-12'',
      txn ''t5'' Expense 7 ''c1'' ''2024-07-01'',
      txn ''t6'' Expense 9 ''c2'' ''2024-05-31'']"

definition sample_db :: store where
  "sample_db =
     \<lparr>tbl_categories = sample_cats, tbl_transactions = sample_txns,
      tbl_budgets = [bud ''b1'' ''c1'' 100 ''2024-06-01'', bud ''b2'' ''c2'' 200 ''2024-06-01'',
                     bud ''b3'' ''c1'' 100 ''2024-07-01''],
      fails = (\<lambda>r. False)\<rparr>"

text \<open>The same store while the spend request for category c2 fails.\<close>

definition outage_db :: store where
  "outage_db = sample_db\<lparr>fails := (\<lambda>r. r = SelectSpending ''c2'' ''2024-06-01'')\<rparr>"

definition week_txns :: "transaction list" where
  "week_txns =
     [txn ''w1'' Expense 5 ''c1'' ''2024-06-08'',
      txn ''w2'' Expense 5 ''c1'' ''2024-06-09'',
      txn ''w3'' Expense 5 ''c1'' ''2024-06-15'',
      txn ''w4'' Expense 5 ''c1'' ''2024-06-16'']"

definition constructor_txn :: transaction where
  "constructor_txn =
     (txn ''x1'' Expense 5 ''c9'' ''2024-06-12'')
       \<lparr>categories := Some (cat ''c9'' ''constructor'' Expense)\<rparr>"

definition food_txn :: "string \<Rightarrow> rat \<Rightarrow> transaction" where
  "food_txn i a =
     (txn i Expense a ''c1'' ''2024-06-12'')\<lparr>categories := Some (cat ''c1'' ''Food'' Expense)\<rparr>"

definition sample_dashboard :: dashboard where
  "sample_dashboard =
     \<lparr>budgetAlerts = [\<lparr>alert_categoryName = ''Food'', alert_spent = 85, alert_limit = 100,
                        alert_percentage = 85\<rparr>],
      monthlyStats = \<lparr>income = 0, expenses = 0, net = 0\<rparr>\<rparr>"

definition sample_manager :: manager where
  "sample_manager = \<lparr>budgets = [budget_card 100 85], isLoading = False, error = []\<rparr>"




text \<open>
  The number written \<^verbatim>\<open>0.7999999999999999\<close>, a card and a store with that spend on a
  limit of 1, and transactions with the amounts written \<^verbatim>\<open>0.1\<close> and \<^verbatim>\<open>0.2\<close>.
\<close>

definition near80 :: rat where
  "near80 = literal (7999999999999999 / 10000000000000000)"


definition unit_txns :: "transaction list" where
  "unit_txns =
     [txn ''u1'' Income 1 ''c3'' ''2024-06-01'',
      txn ''u2'' Expense (literal (1 / 10)) ''c1'' ''2024-06-02'']"

definition tenth_txns :: "transaction list" where
  "tenth_txns =
     [txn ''d1'' Income (literal (1 / 10)) ''c3'' ''2024-06-01'',
      txn ''d2'' Income (literal (2 / 10)) ''c3'' ''2024-06-02'',
      txn ''d3'' Expense (literal (1 / 10)) ''c1'' ''2024-06-03'']"

section \<open>Auxiliary notions for the proofs\<close>

text \<open>A non-negative whole number.\<close>

definition whole :: "rat \<Rightarrow> bool" where
  "whole x = (x \<in> \<int> \<and> 0 \<le> x)"

text \<open>
  The sum of the amounts held by an accumulator object, and the effect of
  \<^verbatim>\<open>acc[categoryName].amount += a\<close> on one own property.
\<close>

definition bucket_total :: "(string \<times> bucket) list \<Rightarrow> rat" where
  "bucket_total obj = sum_list (map (\<lambda>(k, v). bucket_amount v) obj)"

definition add_to :: "string \<Rightarrow> rat \<Rightarrow> string \<times> bucket \<Rightarrow> string \<times> bucket" where
  "add_to n a =
     (\<lambda>(k, v). if k = n then (k, v\<lparr>bucket_amount := js_add (bucket_amount v) a\<rparr>) else (k, v))"

section \<open>Verification\<close>

subsection \<open>Binary64 arithmetic on whole numbers\<close>

text \<open>
  Rounding leaves every integer of magnitude below \<open>2^53\<close> as it is, so sums and
  differences of non-negative whole numbers that stay below \<open>2^53\<close> are exact.
\<close>

lemma round_half_even_of_int: "round_half_even (of_int m) = m"
  by (simp add: round_half_even_def)

lemma ilog2_lower:
  assumes "0 < x"
  shows "2 powi (ilog2 x) \<le> x"
proof -
  obtain p q where pq: "quotient_of x = (p, q)" by (cases "quotient_of x")
  then have q: "0 < q" by (rule quotient_of_denom_pos)
  have x: "x = of_int p / of_int q" using pq by (rule quotient_of_div)
  with assms q have p: "0 < p" by (simp add: zero_less_divide_iff)
  let ?k = "bitlen p - bitlen q"
  show ?thesis
  proof (cases "2 powi ?k \<le> x")
    case True
    then show ?thesis by (simp add: ilog2_def pq)
  next
    case False
    have bp: "(2::rat) powi (bitlen p - 1) \<le> of_int p"
    proof -
      have "2 ^ nat (bitlen p - 1) \<le> p" using bitlen_bounds [OF p] by simp
      then have "(of_int (2 ^ nat (bitlen p - 1)) :: rat) \<le> of_int p" by (simp only: of_int_le_iff)
      moreover have "0 \<le> bitlen p - 1" using p by (simp add: bitlen_alt_def)
      ultimately show ?thesis by (simp add: power_int_def)
    qed
    have bq: "of_int q \<le> (2::rat) powi (bitlen q)"
    proof -
      have "q < 2 ^ nat (bitlen q)" using bitlen_bounds [OF q] by simp
      then have "(of_int q :: rat) < of_int (2 ^ nat (bitlen q))" by (simp only: of_int_less_iff)
      then show ?thesis by (simp add: power_int_def bitlen_nonneg)
    qed
    have "(2::rat) powi ((bitlen p - 1) - bitlen q) = 2 powi (bitlen p - 1) / 2 powi (bitlen q)"
      by (rule power_int_diff) simp
    moreover have "?k - 1 = (bitlen p - 1) - bitlen q" by simp
    ultimately have "(2::rat) powi (?k - 1) = 2 powi (bitlen p - 1) / 2 powi (bitlen q)"
      by (simp only:)
    also have "\<dots> \<le> of_int p / 2 powi (bitlen q)"
      using bp by (simp add: divide_right_mono)
    also have "\<dots> \<le> of_int p / of_int q"
      using bq p q by (simp add: frac_le)
    finally have "(2::rat) powi (?k - 1) \<le> x" by (simp only: x)
    moreover have "ilog2 x = ?k - 1" using False by (simp add: ilog2_def pq)
    ultimately show ?thesis by (simp only:)
  qed
qed

lemma round64_of_int:
  assumes "\<bar>n\<bar> < 2 ^ 53"
  shows "round64 (of_int n) = of_int n"
proof (cases "n = 0")
  case True
  then show ?thesis by (simp add: round64_def)
next
  case False
  let ?x = "of_int n :: rat"
  let ?e = "max (ilog2 \<bar>?x\<bar> - 52) (- 1074)"
  have pos: "0 < \<bar>?x\<bar>" using False by simp
  have "2 powi (ilog2 \<bar>?x\<bar>) \<le> \<bar>?x\<bar>" using ilog2_lower [OF pos] .
  also have "\<bar>?x\<bar> < 2 powi 53"
  proof -
    have "(of_int \<bar>n\<bar> :: rat) < of_int (2 ^ 53)" using assms by (simp only: of_int_less_iff)
    then show ?thesis by simp
  qed
  finally have "(2::rat) powi (ilog2 \<bar>?x\<bar>) < 2 powi 53" .
  then have "ilog2 \<bar>?x\<bar> < 53"
    by (rule power_int_le_imp_less_exp [rotated]) simp_all
  then have e: "?e \<le> 0" by simp
  have "\<bar>?x\<bar> / 2 powi ?e = \<bar>?x\<bar> * 2 powi (- ?e)"
    by (simp add: power_int_minus divide_inverse)
  also have "\<dots> = of_int (\<bar>n\<bar> * 2 ^ nat (- ?e))"
    using e by (simp add: power_int_def)
  finally have m: "round_half_even (\<bar>?x\<bar> / 2 powi ?e) = \<bar>n\<bar> * 2 ^ nat (- ?e)"
    by (simp only: round_half_even_of_int)
  have "round64 ?x = sgn ?x * of_int (\<bar>n\<bar> * 2 ^ nat (- ?e)) * 2 powi ?e"
    using False m by (simp add: round64_def Let_def)
  also have "\<dots> = sgn ?x * \<bar>?x\<bar> * (2 powi (- ?e) * 2 powi ?e)"
    using e by (simp add: power_int_def)
  also have "2 powi (- ?e) * (2::rat) powi ?e = 1"
    by (simp add: power_int_minus)
  finally show ?thesis by (simp add: sgn_mult_abs)
qed

lemma whole_of_int: "whole x \<Longrightarrow> \<exists>n. 0 \<le> n \<and> x = of_int n"
  by (auto simp: whole_def elim!: Ints_cases)

lemma js_add_whole:
  assumes "whole x" and "whole y" and "x + y < 2 ^ 53"
  shows "js_add x y = x + y" and "whole (x + y)"
proof -
  from assms(1) obtain a where a: "0 \<le> a" "x = of_int a" using whole_of_int by blast
  from assms(2) obtain b where b: "0 \<le> b" "y = of_int b" using whole_of_int by blast
  have "(of_int (a + b) :: rat) < of_int (2 ^ 53)" using assms(3) a b by simp
  then have "a + b < 2 ^ 53" by (simp only: of_int_less_iff)
  with a b have "\<bar>a + b\<bar> < 2 ^ 53" by simp
  then have "round64 (of_int (a + b)) = of_int (a + b)" by (rule round64_of_int)
  then show "js_add x y = x + y" using a b by (simp add: js_add_def)
  show "whole (x + y)" using assms(1,2) by (simp add: whole_def)
qed

lemma js_sub_whole:
  assumes "whole x" and "whole y" and "x < 2 ^ 53" and "y < 2 ^ 53"
  shows "js_sub x y = x - y"
proof -
  from assms(1) obtain a where a: "0 \<le> a" "x = of_int a" using whole_of_int by blast
  from assms(2) obtain b where b: "0 \<le> b" "y = of_int b" using whole_of_int by blast
  have "(of_int a :: rat) < of_int (2 ^ 53)" "(of_int b :: rat) < of_int (2 ^ 53)"
    using assms(3,4) a b by simp_all
  then have "a < 2 ^ 53" "b < 2 ^ 53" by (simp_all only: of_int_less_iff)
  with a b have "\<bar>a - b\<bar> < 2 ^ 53" by simp
  then have "round64 (of_int (a - b)) = of_int (a - b)" by (rule round64_of_int)
  then show ?thesis using a b by (simp add: js_sub_def)
qed

lemma sum_list_whole:
  "list_all (\<lambda>x. whole (f x)) xs \<Longrightarrow> whole (sum_list (map f xs))"
  by (induction xs) (auto simp: whole_def)

lemma foldl_js_add_whole:
  assumes "whole a" and "list_all (\<lambda>x. whole (f x)) xs" and "a + sum_list (map f xs) < 2 ^ 53"
  shows "foldl (\<lambda>sum x. js_add sum (f x)) a xs = a + sum_list (map f xs)"
  using assms
proof (induction xs arbitrary: a)
  case Nil
  then show ?case by simp
next
  case (Cons x xs)
  from Cons.prems(2) have x: "whole (f x)" and xs: "list_all (\<lambda>x. whole (f x)) xs" by simp_all
  have "0 \<le> sum_list (map f xs)" using sum_list_whole [OF xs] by (simp add: whole_def)
  with Cons.prems(3) have small: "a + f x < 2 ^ 53" by simp
  note step = js_add_whole [OF Cons.prems(1) x small]
  have "foldl (\<lambda>sum x. js_add sum (f x)) (a + f x) xs = (a + f x) + sum_list (map f xs)"
    using Cons.IH [OF step(2) xs] Cons.prems(3) by (simp add: add.assoc)
  with step(1) show ?case by (simp add: add.assoc)
qed

lemma sum_list_filter_le:
  "list_all (\<lambda>x. whole (f x)) xs \<Longrightarrow>
     whole (sum_list (map f (filter P xs))) \<and> sum_list (map f (filter P xs)) \<le> sum_list (map f xs)"
  by (induction xs) (auto simp: whole_def)

subsection \<open>Budget classification\<close>

text \<open>
  Claim C1, read with the exact quotient, fails on the code: with a limit of 1 and
  a spend of 0.7999999999999999 the exact percentage is below 80, but the
  computed one is 80 and the card is a warning.
\<close>

theorem budget_classification_counterexample:
  "0 < limit_amount (budget_card 1 near80)
   \<and> spent (budget_card 1 near80) / limit_amount (budget_card 1 near80) * 100 < 80
   \<and> budget_class (budget_card 1 near80) = Warning"
  by code_simp

text \<open>
  Claim C1 as amended. For a budget card with a positive limit, with pct the
  binary64 value the code computes as \<^verbatim>\<open>(spent / limit_amount) * 100\<close>, each operation
  rounded to nearest: the card is normal when pct < 80, a warning when
  80 \<le> pct \<le> 100 (so a computed 100 is a warning, not over budget), and over
  budget when pct > 100; only in the last case an over-amount is shown, and it is
  the binary64 difference of spent and limit_amount.
\<close>

theorem budget_classification_double:
  assumes "limit_amount b > 0"
  shows "(js_mul (js_div (spent b) (limit_amount b)) 100 < 80 \<longrightarrow>
            budget_class b = Normal \<and> over_by b = None)
       \<and> (80 \<le> js_mul (js_div (spent b) (limit_amount b)) 100
            \<and> js_mul (js_div (spent b) (limit_amount b)) 100 \<le> 100 \<longrightarrow>
            budget_class b = Warning \<and> over_by b = None)
       \<and> (100 < js_mul (js_div (spent b) (limit_amount b)) 100 \<longrightarrow>
            budget_class b = OverBudget
            \<and> over_by b = Some (js_sub (spent b) (limit_amount b)))"
  by (simp add: budget_class_def over_by_def isOverBudget_def isWarning_def percentage_def)

theorem budget_classification_double_witness:
  "budget_class (budget_card 100 (literal (79999 / 1000))) = Normal
   \<and> budget_class (budget_card 100 80) = Warning
   \<and> budget_class (budget_card 100 85) = Warning
   \<and> budget_class (budget_card 100 100) = Warning \<and> over_by (budget_card 100 100) = None
   \<and> budget_class (budget_card 100 (literal (10001 / 100))) = OverBudget
   \<and> budget_class (budget_card 100 120) = OverBudget \<and> over_by (budget_card 100 120) = Some 20"
proof -
  have l: "0 < limit_amount (budget_card 100 s)" for s
    by (simp add: budget_card_def)
  have p: "js_mul (js_div (literal (79999 / 1000)) 100) 100 < 80"
    "js_mul (js_div 80 100) 100 = 80" "js_mul (js_div 85 100) 100 = 85"
    "js_mul (js_div 100 100) 100 = 100"
    "100 < js_mul (js_div (literal (10001 / 100)) 100) 100"
    "js_mul (js_div 120 100) 100 = 120" "js_sub 120 100 = 20"
    by code_simp+
  show ?thesis
    using budget_classification_double [OF l, of "literal (79999 / 1000)"]
      budget_classification_double [OF l, of 80]
      budget_classification_double [OF l, of 85]
      budget_classification_double [OF l, of 100]
      budget_classification_double [OF l, of "literal (10001 / 100)"]
      budget_classification_double [OF l, of 120] p
    by (simp add: budget_card_def)
qed

subsection \<open>Aggregation\<close>

lemma aggregate_scenario:
  "aggregate (filtered tz [txn ''a'' Expense 50 ''c1'' ''2024-06-01'',
                           txn ''b'' Income 1000 ''c3'' ''2024-06-02''] ''2024-06'' MonthView)
     = \<lparr>income = 1000, expenses = 50, net = 950\<rparr>"
  by code_simp

text \<open>
  Claim C5, read with exact sums, fails on the code: the incomes 0.1 and 0.2 give
  an income of 0.30000000000000004, which is not the sum of the two amounts, and
  an income of 1 with an expense of 0.1 gives a net that is not their exact
  difference.
\<close>

theorem aggregate_exact_sums_counterexample:
  "income (aggregate tenth_txns)
     \<noteq> sum_list (map amount (filter (\<lambda>t. txn_type t = Income) tenth_txns))
   \<and> net (aggregate unit_txns) \<noteq> income (aggregate unit_txns) - expenses (aggregate unit_txns)"
  by code_simp

text \<open>
  Claim C5 as amended. For every filtered transaction list, income is the sum of
  the amounts of the income transactions accumulated from left to right in
  binary64 arithmetic, starting from 0; expenses likewise over the expense
  transactions; and net is the binary64 difference of the two. When every amount
  is a non-negative whole number and the amounts total less than \<open>2^53\<close>, these are
  the exact sums and the exact difference.
\<close>

theorem aggregate_double_sums:
  "income (aggregate ts)
     = foldl (\<lambda>sum t. js_add sum (amount t)) 0 (filter (\<lambda>t. txn_type t = Income) ts)
   \<and> expenses (aggregate ts)
     = foldl (\<lambda>sum t. js_add sum (amount t)) 0 (filter (\<lambda>t. txn_type t = Expense) ts)
   \<and> net (aggregate ts) = js_sub (income (aggregate ts)) (expenses (aggregate ts))
   \<and> ((\<forall>t\<in>set ts. amount t \<in> \<int> \<and> 0 \<le> amount t) \<and> sum_list (map amount ts) < 2 ^ 53 \<longrightarrow>
        income (aggregate ts) = sum_list (map amount (filter (\<lambda>t. txn_type t = Income) ts))
        \<and> expenses (aggregate ts) = sum_list (map amount (filter (\<lambda>t. txn_type t = Expense) ts))
        \<and> net (aggregate ts) = income (aggregate ts) - expenses (aggregate ts))"
proof -
  have defs: "income (aggregate ts)
     = foldl (\<lambda>sum t. js_add sum (amount t)) 0 (filter (\<lambda>t. txn_type t = Income) ts)"
    "expenses (aggregate ts)
     = foldl (\<lambda>sum t. js_add sum (amount t)) 0 (filter (\<lambda>t. txn_type t = Expense) ts)"
    "net (aggregate ts) = js_sub (income (aggregate ts)) (expenses (aggregate ts))"
    by (simp_all add: aggregate_def Let_def)
  have exact: "income (aggregate ts) = sum_list (map amount (filter (\<lambda>t. txn_type t = Income) ts))
        \<and> expenses (aggregate ts) = sum_list (map amount (filter (\<lambda>t. txn_type t = Expense) ts))
        \<and> net (aggregate ts) = income (aggregate ts) - expenses (aggregate ts)"
    if w: "\<forall>t\<in>set ts. amount t \<in> \<int> \<and> 0 \<le> amount t" and small: "sum_list (map amount ts) < 2 ^ 53"
  proof -
    have all: "list_all (\<lambda>t. whole (amount t)) ts"
      using w by (simp add: list_all_iff whole_def)
    have part: "list_all (\<lambda>t. whole (amount t)) (filter P ts)" for P
      using all by (simp add: list_all_iff)
    note inc = sum_list_filter_le [OF all, of "\<lambda>t. txn_type t = Income"]
    note exp = sum_list_filter_le [OF all, of "\<lambda>t. txn_type t = Expense"]
    have zero: "whole 0" by (simp add: whole_def)
    have i: "income (aggregate ts) = sum_list (map amount (filter (\<lambda>t. txn_type t = Income) ts))"
      using foldl_js_add_whole [OF zero part, of "\<lambda>t. txn_type t = Income"] inc small
      by (simp add: defs(1))
    have e: "expenses (aggregate ts) = sum_list (map amount (filter (\<lambda>t. txn_type t = Expense) ts))"
      using foldl_js_add_whole [OF zero part, of "\<lambda>t. txn_type t = Expense"] exp small
      by (simp add: defs(2))
    have "net (aggregate ts) = income (aggregate ts) - expenses (aggregate ts)"
      using js_sub_whole [of "income (aggregate ts)" "expenses (aggregate ts)"] inc exp small
      by (simp add: defs(3) i e)
    with i e show ?thesis by simp
  qed
  from defs exact show ?thesis by blast
qed

theorem aggregate_double_sums_witness:
  "aggregate sample_txns = \<lparr>income = 1000, expenses = 141, net = 859\<rparr>
   \<and> income (aggregate sample_txns)
       = sum_list (map amount (filter (\<lambda>t. txn_type t = Income) sample_txns))
   \<and> expenses (aggregate sample_txns)
       = sum_list (map amount (filter (\<lambda>t. txn_type t = Expense) sample_txns))
   \<and> net (aggregate sample_txns)
       = income (aggregate sample_txns) - expenses (aggregate sample_txns)"
proof -
  have h: "(\<forall>t\<in>set sample_txns. amount t \<in> \<int> \<and> 0 \<le> amount t)
             \<and> sum_list (map amount sample_txns) < 2 ^ 53"
    by (simp add: sample_txns_def txn_def)
  have v: "sum_list (map amount (filter (\<lambda>t. txn_type t = Income) sample_txns)) = 1000"
    "sum_list (map amount (filter (\<lambda>t. txn_type t = Expense) sample_txns)) = 141"
    by (simp_all add: sample_txns_def txn_def)
  from aggregate_double_sums [of sample_txns] h
  have "income (aggregate sample_txns)
          = sum_list (map amount (filter (\<lambda>t. txn_type t = Income) sample_txns))
        \<and> expenses (aggregate sample_txns)
          = sum_list (map amount (filter (\<lambda>t. txn_type t = Expense) sample_txns))
        \<and> net (aggregate sample_txns)
          = income (aggregate sample_txns) - expenses (aggregate sample_txns)"
    by blast
  with v show ?thesis by (cases "aggregate sample_txns") simp
qed

subsection \<open>Alerts are refreshed in the month view only\<close>

lemma calculateStats_month_recomputes:
  "budgetAlerts (calculateStats sample_db 0 sample_txns sample_cats ''2024-06-01'' MonthView
                   (sample_dashboard\<lparr>budgetAlerts := []\<rparr>))
     = [\<lparr>alert_categoryName = ''Food'', alert_spent = 85, alert_limit = 100,
          alert_percentage = 85\<rparr>]"
  by code_simp

text \<open>
  Claim C10. In the day and week views \<^verbatim>\<open>calculateStats\<close> replaces the totals
  (income, expenses, net) and nothing else: the list of budget alerts is the one
  it was before, because \<^verbatim>\<open>checkBudgetAlerts\<close> runs in the month view only.
\<close>

theorem calculateStats_frame:
  assumes "tv = DayView \<or> tv = WeekView"
  shows "calculateStats db tz transactions cats selectedMonth tv st
           = st\<lparr>monthlyStats := aggregate (filtered tz transactions selectedMonth tv)\<rparr>
       \<and> budgetAlerts (calculateStats db tz transactions cats selectedMonth tv st) = budgetAlerts st"
  using assms by (auto simp: calculateStats_def Let_def)

theorem calculateStats_frame_witness:
  "budgetAlerts (calculateStats sample_db 0 sample_txns sample_cats ''2024-06-12'' DayView
                   sample_dashboard) = budgetAlerts sample_dashboard
   \<and> budgetAlerts (calculateStats sample_db 0 sample_txns sample_cats ''2024-06-12'' WeekView
                   sample_dashboard) = budgetAlerts sample_dashboard
   \<and> monthlyStats (calculateStats sample_db 0 sample_txns sample_cats ''2024-06-12'' DayView
                   sample_dashboard) = \<lparr>income = 0, expenses = 40, net = - 40\<rparr>"
proof -
  have "aggregate (filtered 0 sample_txns ''2024-06-12'' DayView)
          = \<lparr>income = 0, expenses = 40, net = - 40\<rparr>"
    by code_simp
  then show ?thesis
    using calculateStats_frame [of DayView sample_db 0 sample_txns sample_cats "''2024-06-12''"
            sample_dashboard]
      calculateStats_frame [of WeekView sample_db 0 sample_txns sample_cats "''2024-06-12''"
            sample_dashboard]
    by simp
qed

subsection \<open>Budget alerts\<close>





subsection \<open>The month filter\<close>

lemma split_str_nonempty: "split_str sep s \<noteq> []"
  by (induction s) (auto split: list.splits)

lemma split_str_no_sep: "sep \<notin> set s \<Longrightarrow> split_str sep s = [s]"
  by (induction s) auto

lemma split_str_append: "sep \<notin> set y \<Longrightarrow> split_str sep (y @ sep # rest) = y # split_str sep rest"
  by (induction y) auto

lemma month_prefix_ym:
  assumes "CHR ''-'' \<notin> set y" and "CHR ''-'' \<notin> set mo"
  shows "month_prefix (y @ ''-'' @ mo) = y @ ''-'' @ mo"
  using assms by (simp add: month_prefix_def split_str_append split_str_no_sep)

lemma month_prefix_ymd:
  assumes "CHR ''-'' \<notin> set y" and "CHR ''-'' \<notin> set mo"
  shows "month_prefix (y @ ''-'' @ mo @ ''-'' @ d) = y @ ''-'' @ mo"
  using assms by (simp add: month_prefix_def split_str_append split: list.splits)

lemma in_period_month:
  "in_period tz selectedMonth MonthView = (\<lambda>t. prefix (month_prefix selectedMonth) (date t))"
  by (rule ext) (simp add: in_period_def)

text \<open>
  Claim C3. With granularity month and a reference date \<^verbatim>\<open>YYYY-MM\<close> or
  \<^verbatim>\<open>YYYY-MM-DD\<close> (year part \<open>y\<close>, month part \<open>mo\<close>, neither holding a hyphen), the
  filtered list is exactly the transactions whose date string starts with
  \<^verbatim>\<open>YYYY-MM\<close>, in their order.
\<close>

theorem month_filter_prefix:
  assumes "CHR ''-'' \<notin> set y" and "CHR ''-'' \<notin> set mo"
    and "selectedMonth = y @ ''-'' @ mo \<or> selectedMonth = y @ ''-'' @ mo @ ''-'' @ d"
  shows "filtered tz transactions selectedMonth MonthView
           = filter (\<lambda>t. prefix (y @ ''-'' @ mo) (date t)) transactions"
  using assms month_prefix_ym [of y mo] month_prefix_ymd [of y mo d]
  by (auto simp: filtered_def in_period_month)

theorem month_filter_prefix_witness:
  "filtered 0 sample_txns ''2024-06'' MonthView
     = filter (\<lambda>t. prefix ''2024-06'' (date t)) sample_txns
   \<and> filtered 0 sample_txns ''2024-06-12'' MonthView
     = filter (\<lambda>t. prefix ''2024-06'' (date t)) sample_txns
   \<and> map txn_id (filtered 0 sample_txns ''2024-06-12'' MonthView)
     = [''t1'', ''t2'', ''t3'', ''t4'']"
proof -
  have "map txn_id (filter (\<lambda>t. prefix ''2024-06'' (date t)) sample_txns)
          = [''t1'', ''t2'', ''t3'', ''t4'']"
    by code_simp
  then show ?thesis
    using month_filter_prefix [of "''2024''" "''06''" "''2024-06''" "''12''" 0 sample_txns]
      month_filter_prefix [of "''2024''" "''06''" "''2024-06-12''" "''12''" 0 sample_txns]
    by simp
qed

subsection \<open>Loading the budget list is all or nothing\<close>

lemma promise_all_Inl:
  "Inl e \<in> set ps \<Longrightarrow> \<exists>e'. promise_all ps = Inl e'"
  by (induction ps) (auto split: sum.splits)

lemma promise_all_Inr:
  "promise_all ps = Inr vs \<Longrightarrow> ps = map Inr vs"
  by (induction ps arbitrary: vs) (auto split: sum.splits)

lemma with_spending_truncate:
  "with_spending db tz cats m b = Inr w \<Longrightarrow> budget.truncate w = b"
  by (auto simp: with_spending_def budget.truncate_def Let_def split: sum.splits)

lemma with_spending_all:
  "map (with_spending db tz cats m) data = map Inr ws \<Longrightarrow> map budget.truncate ws = data"
proof (induction data arbitrary: ws)
  case Nil
  then show ?case by simp
next
  case (Cons b data)
  then obtain w ws' where ws: "ws = w # ws'" by (cases ws) auto
  with Cons.prems have "with_spending db tz cats m b = Inr w"
    and "map (with_spending db tz cats m) data = map Inr ws'" by simp_all
  with Cons.IH ws show ?case by (simp add: with_spending_truncate)
qed

text \<open>
  Claim C9. If the spend fetch fails for a budget of the month's list,
  \<^verbatim>\<open>loadBudgets\<close> only records the error message and clears the loading flag: the
  budget list shown before is unchanged. In every run the list afterwards is
  either the previous one or covers every budget the store returned for the
  month, never a part of them.
\<close>

theorem loadBudgets_atomic:
  assumes "getBudgets db selectedMonth = Inr data"
    and "b \<in> set data"
    and "getCategorySpending db tz (category_id b) selectedMonth = Inl e"
  shows "loadBudgets db tz cats selectedMonth st
           = st\<lparr>error := ''Failed to load budgets'', isLoading := False\<rparr>
       \<and> budgets (loadBudgets db tz cats selectedMonth st) = budgets st
       \<and> (\<forall>db' st'. budgets (loadBudgets db' tz cats selectedMonth st') = budgets st'
            \<or> getBudgets db' selectedMonth
                 = Inr (map budget.truncate (budgets (loadBudgets db' tz cats selectedMonth st'))))"
proof -
  have "with_spending db tz cats selectedMonth b = Inl e"
    using assms(3) by (simp add: with_spending_def)
  then have "Inl e \<in> set (map (with_spending db tz cats selectedMonth) data)"
    using assms(2) by force
  then obtain e' where "promise_all (map (with_spending db tz cats selectedMonth) data) = Inl e'"
    using promise_all_Inl by blast
  then have 1: "loadBudgets db tz cats selectedMonth st
           = st\<lparr>error := ''Failed to load budgets'', isLoading := False\<rparr>"
    using assms(1) by (simp add: loadBudgets_def Let_def)
  have 2: "budgets (loadBudgets db' tz cats selectedMonth st') = budgets st'
            \<or> getBudgets db' selectedMonth
                 = Inr (map budget.truncate (budgets (loadBudgets db' tz cats selectedMonth st')))"
    for db' st'
  proof (cases "getBudgets db' selectedMonth")
    case (Inl a)
    then show ?thesis by (simp add: loadBudgets_def Let_def)
  next
    case (Inr d)
    show ?thesis
    proof (cases "promise_all (map (with_spending db' tz cats selectedMonth) d)")
      case (Inl a)
      with Inr show ?thesis by (simp add: loadBudgets_def Let_def)
    next
      case r: (Inr ws)
      then have "map budget.truncate ws = d"
        using promise_all_Inr with_spending_all by blast
      with Inr r show ?thesis by (simp add: loadBudgets_def Let_def)
    qed
  qed
  from 1 2 show ?thesis by simp
qed

theorem loadBudgets_atomic_witness:
  "loadBudgets outage_db 0 sample_cats ''2024-06-01'' sample_manager
     = sample_manager\<lparr>error := ''Failed to load budgets'', isLoading := False\<rparr>
   \<and> budgets (loadBudgets outage_db 0 sample_cats ''2024-06-01'' sample_manager)
     = [budget_card 100 85]"
proof -
  let ?data = "[bud ''b1'' ''c1'' 100 ''2024-06-01'', bud ''b2'' ''c2'' 200 ''2024-06-01'']"
  have h1: "getBudgets outage_db ''2024-06-01'' = Inr ?data"
    by code_simp
  have h2: "bud ''b2'' ''c2'' 200 ''2024-06-01'' \<in> set ?data"
    by simp
  have h3: "getCategorySpending outage_db 0 (category_id (bud ''b2'' ''c2'' 200 ''2024-06-01''))
              ''2024-06-01'' = Inl StoreError"
    by code_simp
  show ?thesis
    using loadBudgets_atomic [OF h1 h2 h3, of sample_cats sample_manager]
    by (simp add: sample_manager_def)
qed

subsection \<open>\<^verbatim>\<open>setBudget\<close> is an upsert\<close>












subsection \<open>Grouping expenses by category\<close>

lemma fst_add_to: "fst (add_to n a kv) = fst kv"
  by (cases kv) (simp add: add_to_def)

lemma add_to_absent:
  "n \<notin> fst ` set obj \<Longrightarrow> map (add_to n a) obj = obj"
  by (induction obj) (auto simp: add_to_def)

lemma bucket_total_whole:
  "list_all (\<lambda>(k, v). whole (bucket_amount v)) obj \<Longrightarrow> whole (bucket_total obj)"
  by (induction obj) (auto simp: bucket_total_def whole_def)

lemma add_to_present:
  assumes "distinct (map fst obj)" and "n \<in> fst ` set obj"
    and "list_all (\<lambda>(k, v). whole (bucket_amount v)) obj" and "whole a"
    and "bucket_total obj + a < 2 ^ 53"
  shows "bucket_total (map (add_to n a) obj) = bucket_total obj + a
       \<and> list_all (\<lambda>(k, v). whole (bucket_amount v)) (map (add_to n a) obj)"
  using assms
proof (induction obj)
  case Nil
  then show ?case by simp
next
  case (Cons kv obj)
  obtain k v where kv: "kv = (k, v)" by (cases kv)
  from Cons.prems(3) kv have v: "whole (bucket_amount v)"
    and rest: "list_all (\<lambda>(k, v). whole (bucket_amount v)) obj" by simp_all
  have total: "bucket_total (kv # obj) = bucket_amount v + bucket_total obj"
    using kv by (simp add: bucket_total_def)
  have nn: "0 \<le> bucket_total obj" "0 \<le> bucket_amount v"
    using bucket_total_whole [OF rest] v by (simp_all add: whole_def)
  show ?case
  proof (cases "k = n")
    case True
    then have "n \<notin> fst ` set obj" using Cons.prems(1) kv by auto
    then have same: "map (add_to n a) obj = obj" by (rule add_to_absent)
    have "bucket_amount v + a < 2 ^ 53" using Cons.prems(5) total nn by simp
    note add = js_add_whole [OF v Cons.prems(4) this]
    have "map (add_to n a) (kv # obj) = (k, v\<lparr>bucket_amount := bucket_amount v + a\<rparr>) # obj"
      using True kv same add(1) by (simp add: add_to_def)
    then show ?thesis using add(2) rest total by (simp add: bucket_total_def)
  next
    case False
    then have "n \<in> fst ` set obj" using Cons.prems(2) kv by auto
    moreover have "bucket_total obj + a < 2 ^ 53" using Cons.prems(5) total nn by simp
    ultimately have "bucket_total (map (add_to n a) obj) = bucket_total obj + a
       \<and> list_all (\<lambda>(k, v). whole (bucket_amount v)) (map (add_to n a) obj)"
      using Cons.IH Cons.prems(1,4) rest by simp
    then show ?thesis using False kv v by (simp add: bucket_total_def add_to_def)
  qed
qed

lemma group_step_unfold:
  "group_step acc tr =
     map (add_to (group_name tr) (amount tr))
       (case js_get acc (group_name tr) of
          Undefined \<Rightarrow>
            acc @ [(group_name tr,
                    \<lparr>bucket_amount = 0,
                     bucket_color = or_else (map_option cat_color (categories tr)) ''#6B7280'',
                     bucket_icon = or_else (map_option cat_icon (categories tr)) ''Package''\<rparr>)]
        | _ \<Rightarrow> acc)"
  by (simp add: group_step_def Let_def add_to_def)

lemma map_of_None_fst: "map_of obj k = None \<longleftrightarrow> k \<notin> fst ` set obj"
  by (simp add: map_of_eq_None_iff)

lemma group_step_total:
  assumes "distinct (map fst acc)" and "group_name tr \<notin> set objectPrototypeKeys"
    and "list_all (\<lambda>(k, v). whole (bucket_amount v)) acc" and "whole (amount tr)"
    and "bucket_total acc + amount tr < 2 ^ 53"
  shows "distinct (map fst (group_step acc tr))
       \<and> list_all (\<lambda>(k, v). whole (bucket_amount v)) (group_step acc tr)
       \<and> bucket_total (group_step acc tr) = bucket_total acc + amount tr"
proof -
  let ?n = "group_name tr"
  let ?new = "(?n, \<lparr>bucket_amount = 0,
                   bucket_color = or_else (map_option cat_color (categories tr)) ''#6B7280'',
                   bucket_icon = or_else (map_option cat_icon (categories tr)) ''Package''\<rparr>)"
  let ?acc1 = "case map_of acc ?n of None \<Rightarrow> acc @ [?new] | Some v \<Rightarrow> acc"
  have step: "group_step acc tr = map (add_to ?n (amount tr)) ?acc1"
    using assms(2) by (simp add: group_step_unfold js_get_def split: option.splits)
  have d1: "distinct (map fst ?acc1)"
    using assms(1) by (auto simp: map_of_None_fst split: option.splits)
  have in1: "?n \<in> fst ` set ?acc1"
    by (auto simp: map_of_None_fst split: option.splits) (metis fst_conv imageI map_of_SomeD)
  have w1: "list_all (\<lambda>(k, v). whole (bucket_amount v)) ?acc1"
    using assms(3) by (simp add: whole_def split: option.splits)
  have t1: "bucket_total ?acc1 = bucket_total acc"
    by (simp add: bucket_total_def split: option.splits)
  from add_to_present [OF d1 in1 w1 assms(4)] assms(5) t1
  have "bucket_total (map (add_to ?n (amount tr)) ?acc1) = bucket_total acc + amount tr
       \<and> list_all (\<lambda>(k, v). whole (bucket_amount v)) (map (add_to ?n (amount tr)) ?acc1)"
    by simp
  moreover have "distinct (map fst (map (add_to ?n (amount tr)) ?acc1))"
    using d1 by (simp add: comp_def fst_add_to)
  ultimately show ?thesis by (simp only: step) 
qed

lemma foldl_group_step_total:
  assumes "distinct (map fst acc)"
    and "list_all (\<lambda>t. group_name t \<notin> set objectPrototypeKeys \<and> whole (amount t)) ts"
    and "list_all (\<lambda>(k, v). whole (bucket_amount v)) acc"
    and "bucket_total acc + sum_list (map amount ts) < 2 ^ 53"
  shows "list_all (\<lambda>(k, v). whole (bucket_amount v)) (foldl group_step acc ts)
       \<and> bucket_total (foldl group_step acc ts) = bucket_total acc + sum_list (map amount ts)"
  using assms
proof (induction ts arbitrary: acc)
  case Nil
  then show ?case by simp
next
  case (Cons t ts)
  from Cons.prems(2) have t: "group_name t \<notin> set objectPrototypeKeys" "whole (amount t)"
    and ts: "list_all (\<lambda>t. group_name t \<notin> set objectPrototypeKeys \<and> whole (amount t)) ts"
    by simp_all
  have "list_all (\<lambda>t. whole (amount t)) ts" using ts by (simp add: list_all_iff)
  then have "0 \<le> sum_list (map amount ts)" using sum_list_whole by (auto simp: whole_def)
  with Cons.prems(4) have small: "bucket_total acc + amount t < 2 ^ 53" by simp
  note step = group_step_total [OF Cons.prems(1) t(1) Cons.prems(3) t(2) small]
  have "bucket_total (group_step acc t) + sum_list (map amount ts) < 2 ^ 53"
    using step Cons.prems(4) by (simp add: add.assoc)
  with Cons.IH [of "group_step acc t"] step ts show ?case by (simp add: add.assoc)
qed

lemma entries_mset: "mset (entries obj) = mset obj"
  by (simp add: entries_def)

lemma bucket_total_entries: "bucket_total (entries obj) = bucket_total obj"
proof -
  have "sum_mset (image_mset (\<lambda>(k, v). bucket_amount v) (mset (entries obj)))
          = sum_mset (image_mset (\<lambda>(k, v). bucket_amount v) (mset obj))"
    by (simp add: entries_mset)
  then show ?thesis
    unfolding bucket_total_def by (metis mset_map sum_mset_sum_list)
qed

lemma set_entries: "set (entries obj) = set obj"
  using entries_mset [of obj] by (metis set_mset_mset)

lemma groupExpensesByCategory_sum_preserving:
  assumes "list_all (\<lambda>t. group_name t \<notin> set objectPrototypeKeys \<and> whole (amount t)) ts"
    and "sum_list (map amount ts) < 2 ^ 53"
  shows "sum_list (map expense_amount (groupExpensesByCategory ts)) = sum_list (map amount ts)"
    and "totalExpense (groupExpensesByCategory ts) = sum_list (map amount ts)"
proof -
  have g: "list_all (\<lambda>(k, v). whole (bucket_amount v)) (grouped ts)"
    "bucket_total (grouped ts) = sum_list (map amount ts)"
    using foldl_group_step_total [of "[]" ts] assms by (simp_all add: grouped_def bucket_total_def)
  have amounts: "map expense_amount (groupExpensesByCategory ts)
          = map (\<lambda>(k, v). bucket_amount v) (entries (grouped ts))"
    by (simp add: groupExpensesByCategory_def comp_def case_prod_unfold)
  then have "sum_list (map expense_amount (groupExpensesByCategory ts)) = bucket_total (entries (grouped ts))"
    by (simp add: bucket_total_def)
  then show sum: "sum_list (map expense_amount (groupExpensesByCategory ts)) = sum_list (map amount ts)"
    using g(2) by (simp add: bucket_total_entries)
  have "list_all (\<lambda>(k, v). whole (bucket_amount v)) (entries (grouped ts))"
    using g(1) by (simp add: list_all_iff set_entries)
  then have w: "list_all (\<lambda>e. whole (expense_amount e)) (groupExpensesByCategory ts)"
    by (simp add: groupExpensesByCategory_def list_all_iff case_prod_unfold)
  have "whole 0" by (simp add: whole_def)
  from foldl_js_add_whole [OF this w] sum assms(2)
  show "totalExpense (groupExpensesByCategory ts) = sum_list (map amount ts)"
    by (simp add: totalExpense_def)
qed

text \<open>
  Claim C6 says that the group amounts add up to the sum of the input amounts.
  The lemma above proves it for inputs none of whose category names is a member
  of \<^verbatim>\<open>Object.prototype\<close> (with whole amounts totalling less than \<open>2^53\<close>, so that every
  addition is exact). For a category named \<^verbatim>\<open>constructor\<close> the amount is added to
  the inherited member instead of a group: the result has no group for it and
  the total falls short of the input sum.
\<close>

theorem grouping_loses_prototype_names:
  "groupExpensesByCategory [constructor_txn] = []
   \<and> totalExpense (groupExpensesByCategory [constructor_txn]) = 0
   \<and> sum_list (map amount [constructor_txn]) = 5
   \<and> totalExpense (groupExpensesByCategory [food_txn ''f1'' 3, constructor_txn, food_txn ''f2'' 4]) = 7
   \<and> sum_list (map amount [food_txn ''f1'' 3, constructor_txn, food_txn ''f2'' 4]) = 12"
  by code_simp

subsection \<open>The week filter\<close>

lemma week_filter_at_utc:
  "map date (filtered 0 week_txns ''2024-06-12'' WeekView) = [''2024-06-09'', ''2024-06-15'']
   \<and> map date (filtered 330 week_txns ''2024-06-12'' WeekView) = [''2024-06-09'', ''2024-06-15'']"
  by code_simp

text \<open>
  Claim C4 says that the week of reference date 2024-06-12 is 2024-06-09 to
  2024-06-15, so that a transaction of 2024-06-09 is kept. That is what the lemma
  above shows for UTC and for UTC+05:30. Five hours west of UTC the reference
  date, read as midnight UTC, is still Tuesday 11 June local time: the week
  becomes 2024-06-10 to 2024-06-16, the transaction of 2024-06-09 is dropped and
  one of 2024-06-16 is kept.
\<close>

theorem week_filter_west_of_utc:
  "map date (filtered (- 300) week_txns ''2024-06-12'' WeekView) = [''2024-06-15'', ''2024-06-16'']
   \<and> map_option (\<lambda>(startOfWeek, endOfWeek). (toISODate startOfWeek, toISODate endOfWeek))
         (week_bounds (- 300) ''2024-06-12'')
       = Some (''2024-06-10'', ''2024-06-16'')"
  by code_simp

subsection \<open>The spend of a category in a month\<close>

lemma spending_at_utc:
  "getCategorySpending sample_db 0 ''c1'' ''2024-06-01'' = Inr 85
   \<and> getCategorySpending sample_db 330 ''c1'' ''2024-06-01'' = Inr 85"
  by code_simp

text \<open>
  Claim C7 says that the spend of a month leaves out the first day of the next
  month. That is what the lemma above shows for UTC and for UTC+05:30 (85 for
  category c1 in June 2024). Five hours west of UTC the end of the range is
  computed as 2024-07-02, and the expense of 2024-07-01 is counted: 92.
\<close>

theorem spending_west_of_utc:
  "getCategorySpending sample_db (- 300) ''c1'' ''2024-06-01'' = Inr 92
   \<and> sum_list (map amount (filter (\<lambda>t. txn_category_id t = ''c1'' \<and> txn_type t = Expense
         \<and> ''2024-06-01'' \<le> date t \<and> date t < ''2024-07-01'') (tbl_transactions sample_db))) = 85"
  by code_simp

end
